theory Spec2Isabelle
  imports Complex_Main
begin

section \<open>JavaScript values\<close>

text \<open>
  The session code of the quiz portal (\<^verbatim>\<open>src/auth/jwt.ts\<close>, the \<^verbatim>\<open>AuthProvider\<close> of
  \<^verbatim>\<open>AuthContext\<close> and the \<^verbatim>\<open>PrivateRoute\<close> guard) works on untyped JSON: the decoded
  token payload, the cached user record and the login response are whatever the parser
  returns, and the code guards every use with truthiness tests, \<^verbatim>\<open>?.\<close> and \<^verbatim>\<open>??\<close>.
  The model keeps that: a value is a \<open>json\<close> tree, \<open>JNull\<close> is JavaScript's
  \<^verbatim>\<open>null\<close>, and \<^verbatim>\<open>undefined\<close> is \<open>None\<close> of \<open>json option\<close>. Numbers are exact
  rationals (rounding of doubles is not modelled); an object is the list of its own properties,
  with distinct keys.
\<close>

datatype json =
    JNull
  | JBool bool
  | JNum rat
  | JStr string
  | JArr "json list"
  | JObj "(string \<times> json) list"

type_synonym jsval = "json option"

datatype exn =
    Error string
  | TypeError
  | SyntaxError
  | InvalidCharacterError
  | NetworkError

text \<open>Truthiness, as \<^verbatim>\<open>if (x)\<close>, \<^verbatim>\<open>!x\<close>, \<^verbatim>\<open>&&\<close> and \<^verbatim>\<open>||\<close> test it.\<close>

fun truthy :: "json \<Rightarrow> bool" where
  "truthy JNull = False"
| "truthy (JBool b) = b"
| "truthy (JNum n) = (n \<noteq> 0)"
| "truthy (JStr s) = (s \<noteq> [])"
| "truthy (JArr xs) = True"
| "truthy (JObj kvs) = True"

definition truthyv :: "jsval \<Rightarrow> bool" where
  "truthyv v = (case v of None \<Rightarrow> False | Some j \<Rightarrow> truthy j)"

text \<open>
  \<open>get_prop x k\<close> is \<^verbatim>\<open>x.k\<close> for a value \<open>x\<close> that is not \<^verbatim>\<open>null\<close>. The keys the
  code reads (\<^verbatim>\<open>exp\<close>, \<^verbatim>\<open>email\<close>, \<^verbatim>\<open>role\<close>, \<^verbatim>\<open>name\<close>, \<^verbatim>\<open>sub\<close>, \<^verbatim>\<open>id\<close>,
  \<^verbatim>\<open>userId\<close>, \<^verbatim>\<open>user\<close>, \<^verbatim>\<open>access_token\<close>, \<^verbatim>\<open>message\<close>) are own properties of parsed
  objects only; on a primitive or an array they read \<^verbatim>\<open>undefined\<close> (\<^verbatim>\<open>sub\<close> of a string
  is a method, which is never a number and is only read behind a \<^verbatim>\<open>typeof\<close> test or after
  \<^verbatim>\<open>email\<close> was found truthy).
\<close>

fun get_prop :: "json \<Rightarrow> string \<Rightarrow> jsval" where
  "get_prop (JObj kvs) k = map_of kvs k"
| "get_prop x k = None"

text \<open>\<^verbatim>\<open>x?.k\<close>: \<^verbatim>\<open>undefined\<close> when \<open>x\<close> is \<^verbatim>\<open>null\<close>.\<close>

definition opt_prop :: "json \<Rightarrow> string \<Rightarrow> jsval" where
  "opt_prop x k = (if x = JNull then None else get_prop x k)"

text \<open>\<^verbatim>\<open>a ?? b\<close>: \<open>b\<close> when \<open>a\<close> is \<^verbatim>\<open>null\<close> or \<^verbatim>\<open>undefined\<close>.\<close>

definition nullish :: "jsval \<Rightarrow> jsval \<Rightarrow> jsval" where
  "nullish a b = (case a of None \<Rightarrow> b | Some JNull \<Rightarrow> b | Some j \<Rightarrow> Some j)"

text \<open>\<^verbatim>\<open>a || b\<close>.\<close>

definition js_or :: "jsval \<Rightarrow> jsval \<Rightarrow> jsval" where
  "js_or a b = (if truthyv a then a else b)"

text \<open>\<^verbatim>\<open>typeof v === "number"\<close>.\<close>

fun is_number :: "jsval \<Rightarrow> bool" where
  "is_number (Some (JNum n)) = True"
| "is_number v = False"

subsection \<open>The engine and the browser\<close>

text \<open>
  What the code calls but does not define is a parameter: \<^verbatim>\<open>atob\<close> and \<^verbatim>\<open>JSON.parse\<close>
  (either may throw), \<^verbatim>\<open>JSON.stringify\<close>, the conversion of a value that is not a string
  to a string (\<^verbatim>\<open>localStorage.setItem\<close> and \<^verbatim>\<open>new Error\<close> apply it), and the outcome of
  \<^verbatim>\<open>n > v\<close> for a number \<open>n\<close> and a value \<open>v\<close> that is not a number.
\<close>

record platform =
  atob :: "string \<Rightarrow> exn + string"
  JSON_parse :: "string \<Rightarrow> exn + json"
  JSON_stringify :: "json \<Rightarrow> string"
  ToString :: "jsval \<Rightarrow> string"
  num_gt :: "rat \<Rightarrow> json \<Rightarrow> bool"

definition to_str :: "platform \<Rightarrow> jsval \<Rightarrow> string" where
  "to_str P v = (case v of Some (JStr s) \<Rightarrow> s | _ \<Rightarrow> ToString P v)"

text \<open>
  \<^verbatim>\<open>n > v\<close> where \<open>n\<close> is the number \<^verbatim>\<open>Date.now() / 1000\<close>: the numeric order when \<open>v\<close>
  is a number, false when \<open>v\<close> is \<^verbatim>\<open>undefined\<close> (it converts to NaN).
\<close>

definition js_gt :: "platform \<Rightarrow> rat \<Rightarrow> jsval \<Rightarrow> bool" where
  "js_gt P n v =
     (case v of
        None \<Rightarrow> False
      | Some (JNum e) \<Rightarrow> e < n
      | Some j \<Rightarrow> num_gt P n j)"

text \<open>\<^verbatim>\<open>s.split(c)\<close> for a one-character separator, and \<^verbatim>\<open>s.replace(/c/g, d)\<close>.\<close>

fun split_on :: "char \<Rightarrow> string \<Rightarrow> string list" where
  "split_on sep [] = [[]]"
| "split_on sep (c # cs) =
     (if c = sep then [] # split_on sep cs
      else (case split_on sep cs of
              [] \<Rightarrow> [[c]]
            | p # ps \<Rightarrow> (c # p) # ps))"

definition replace_all :: "char \<Rightarrow> char \<Rightarrow> string \<Rightarrow> string" where
  "replace_all c d s = map (\<lambda>x. if x = c then d else x) s"

subsection \<open>localStorage\<close>

type_synonym localStorage = "string \<rightharpoonup> string"

definition getItem :: "localStorage \<Rightarrow> string \<Rightarrow> string option" where
  "getItem st k = st k"

definition setItem :: "string \<Rightarrow> string \<Rightarrow> localStorage \<Rightarrow> localStorage" where
  "setItem k v st = st(k \<mapsto> v)"

definition removeItem :: "string \<Rightarrow> localStorage \<Rightarrow> localStorage" where
  "removeItem k st = st(k := None)"

text \<open>Truthiness of what \<^verbatim>\<open>getItem\<close> returns: a string or \<^verbatim>\<open>null\<close>.\<close>

definition truthy_item :: "string option \<Rightarrow> bool" where
  "truthy_item r = (case r of None \<Rightarrow> False | Some s \<Rightarrow> s \<noteq> [])"

section \<open>jwt.ts\<close>

definition decodeBase64UrlJSON :: "platform \<Rightarrow> string \<Rightarrow> exn + json" where
  "decodeBase64UrlJSON P b64url =
     (let b64 = replace_all (CHR ''_'') (CHR ''/'') (replace_all (CHR ''-'') (CHR ''+'') b64url)
      in case atob P b64 of
           Inl e \<Rightarrow> Inl e
         | Inr text \<Rightarrow> JSON_parse P text)"

text \<open>
  The body of the \<^verbatim>\<open>try\<close> block of \<^verbatim>\<open>readJwt\<close>; \<open>now\<close> is the value of
  \<^verbatim>\<open>Date.now() / 1000\<close> there.
\<close>

definition readJwt_try :: "platform \<Rightarrow> rat \<Rightarrow> string \<Rightarrow> exn + json" where
  "readJwt_try P now raw =
     (let parts = split_on (CHR ''.'') raw in
      if length parts < 2 then Inr JNull
      else (case decodeBase64UrlJSON P (parts ! 1) of
              Inl e \<Rightarrow> Inl e
            | Inr payload \<Rightarrow>
                if truthyv (opt_prop payload ''exp'') \<and> js_gt P now (opt_prop payload ''exp'')
                then Inr JNull
                else Inr payload))"

text \<open>
  \<^verbatim>\<open>readJwt\<close>: \<open>Inl\<close> would be an exception leaving the function, \<open>Inr JNull\<close> is the
  result \<^verbatim>\<open>null\<close>. The \<^verbatim>\<open>catch\<close> turns every exception of the block into \<^verbatim>\<open>null\<close>.
\<close>

definition readJwt :: "platform \<Rightarrow> rat \<Rightarrow> localStorage \<Rightarrow> exn + json" where
  "readJwt P now st =
     (case getItem st ''token'' of
        None \<Rightarrow> Inr JNull
      | Some raw \<Rightarrow>
          if raw = [] then Inr JNull
          else (case readJwt_try P now raw of
                  Inl e \<Rightarrow> Inr JNull
                | Inr payload \<Rightarrow> Inr payload))"

definition isExpired :: "platform \<Rightarrow> rat \<Rightarrow> json \<Rightarrow> bool" where
  "isExpired P now payload =
     (if truthyv (opt_prop payload ''exp'') then js_gt P now (opt_prop payload ''exp'') else False)"

definition saveSession :: "platform \<Rightarrow> string \<Rightarrow> jsval \<Rightarrow> localStorage \<Rightarrow> localStorage" where
  "saveSession P token usr st =
     (let st1 = setItem ''token'' token st in
      case usr of
        None \<Rightarrow> st1
      | Some u \<Rightarrow> if truthy u then setItem ''user'' (JSON_stringify P u) st1 else st1)"

definition clearSession :: "localStorage \<Rightarrow> localStorage" where
  "clearSession st = removeItem ''user'' (removeItem ''token'' st)"

section \<open>AuthContext: the provider's state, hydration, sign-in and sign-out\<close>

record User =
  userId :: jsval
  email :: jsval
  name :: jsval
  role :: jsval

text \<open>
  The provider's two state cells, the browser's storage, and the route the router is at
  (every \<^verbatim>\<open>nav\<close> of the provider replaces the current entry).
\<close>

record AuthState =
  user :: "User option"
  hydrating :: bool
  storage :: localStorage
  location :: string

text \<open>
  The object literal built from the cached record: reading a property of \<^verbatim>\<open>null\<close>
  throws before \<^verbatim>\<open>setUser\<close> is reached.
\<close>

definition user_of_parsed :: "json \<Rightarrow> exn + User" where
  "user_of_parsed parsed =
     (if parsed = JNull then Inl TypeError
      else Inr \<lparr> userId = nullish (nullish (get_prop parsed ''userId'') (get_prop parsed ''id''))
                              (Some (JNum 0)),
                 email = nullish (get_prop parsed ''email'') (Some (JStr [])),
                 name = nullish (get_prop parsed ''name'') (Some (JStr [])),
                 role = get_prop parsed ''role'' \<rparr>)"

definition user_of_payload :: "json \<Rightarrow> User" where
  "user_of_payload payload =
     \<lparr> userId = nullish (get_prop payload ''sub'') (Some (JNum 0)),
       email = get_prop payload ''email'',
       name = nullish (get_prop payload ''name'') (Some (JStr [])),
       role = get_prop payload ''role'' \<rparr>"

text \<open>
  The \<^verbatim>\<open>try\<close> block of the hydration effect. \<open>now1\<close> is \<^verbatim>\<open>Date.now() / 1000\<close> as
  \<^verbatim>\<open>readJwt\<close> reads it, \<open>now2\<close> as the effect reads it afterwards.
\<close>

definition hydrate_try :: "platform \<Rightarrow> rat \<Rightarrow> rat \<Rightarrow> AuthState \<Rightarrow> exn + AuthState" where
  "hydrate_try P now1 now2 s =
     (let rawUser = getItem (storage s) ''user'' in
      if truthy_item rawUser then
        (case rawUser of
           None \<Rightarrow> Inr s
         | Some txt \<Rightarrow>
             (case JSON_parse P txt of
                Inl e \<Rightarrow> Inl e
              | Inr parsed \<Rightarrow>
                  (case user_of_parsed parsed of
                     Inl e \<Rightarrow> Inl e
                   | Inr u \<Rightarrow> Inr (s\<lparr>user := Some u\<rparr>))))
      else
        (case readJwt P now1 (storage s) of
           Inl e \<Rightarrow> Inl e
         | Inr payload \<Rightarrow>
             if truthyv (opt_prop payload ''exp'') \<and> js_gt P now2 (opt_prop payload ''exp'')
             then Inr (s\<lparr>storage := clearSession (storage s), user := None\<rparr>)
             else if truthyv (opt_prop payload ''email'') \<and> truthyv (opt_prop payload ''role'')
             then Inr (s\<lparr>user := Some (user_of_payload payload)\<rparr>)
             else Inr s))"

text \<open>The effect: the empty \<^verbatim>\<open>catch\<close> drops the exception, \<^verbatim>\<open>finally\<close> ends hydration.\<close>

definition hydrate :: "platform \<Rightarrow> rat \<Rightarrow> rat \<Rightarrow> AuthState \<Rightarrow> AuthState" where
  "hydrate P now1 now2 s =
     (case hydrate_try P now1 now2 s of
        Inl e \<Rightarrow> s\<lparr>hydrating := False\<rparr>
      | Inr s' \<Rightarrow> s'\<lparr>hydrating := False\<rparr>)"

text \<open>The provider as mounted: no user yet, hydration pending.\<close>

definition mounted :: "localStorage \<Rightarrow> string \<Rightarrow> AuthState" where
  "mounted st loc = \<lparr> user = None, hydrating = True, storage = st, location = loc \<rparr>"

text \<open>
  What \<^verbatim>\<open>fetch\<close> gives \<^verbatim>\<open>signIn\<close>: a rejection, or a response with its \<^verbatim>\<open>ok\<close> flag and
  the outcome of \<^verbatim>\<open>res.json()\<close>.
\<close>

record response =
  ok :: bool
  json_body :: "exn + json"

datatype fetched = Rejected exn | Resolved response

text \<open>How a call ended, with the state it left.\<close>

datatype outcome = Threw exn AuthState | Returned AuthState

definition route_of_role :: "jsval \<Rightarrow> string" where
  "route_of_role r =
     (if r = Some (JStr ''STUDENT'') then ''/student''
      else if r = Some (JStr ''INSTRUCTOR'') then ''/instructor''
      else if r = Some (JStr ''ADMIN'') then ''/admin''
      else ''/dashboard'')"

text \<open>\<^verbatim>\<open>setUser\<close> and the \<^verbatim>\<open>switch\<close> that ends \<^verbatim>\<open>signIn\<close>.\<close>

definition signIn_finish :: "jsval \<Rightarrow> jsval \<Rightarrow> jsval \<Rightarrow> jsval \<Rightarrow> AuthState \<Rightarrow> AuthState" where
  "signIn_finish uid emailOut nameOut r s =
     s\<lparr> user := Some \<lparr> userId = uid, email = emailOut,
                        name = nullish nameOut (Some (JStr [])), role = r \<rparr>,
        location := route_of_role r \<rparr>"

text \<open>
  \<^verbatim>\<open>signIn\<close> after \<^verbatim>\<open>saveSession\<close>: \<open>s1\<close> is the state with the new storage, \<open>du\<close> is
  \<^verbatim>\<open>data.user\<close>.
\<close>

definition signIn_resolve :: "platform \<Rightarrow> rat \<Rightarrow> jsval \<Rightarrow> AuthState \<Rightarrow> outcome" where
  "signIn_resolve P now du s1 =
     (let u = (case du of None \<Rightarrow> JNull | Some j \<Rightarrow> j);
          emailOut = (if truthyv du then nullish (get_prop u ''email'') (Some (JStr [])) else None);
          nameOut = (if truthyv du then nullish (get_prop u ''name'') (Some (JStr [])) else None);
          r = (if truthyv du then get_prop u ''role'' else None);
          uid = (if truthyv du
                 then nullish (nullish (get_prop u ''userId'') (get_prop u ''id'')) (Some (JNum 0))
                 else Some (JNum 0))
      in if \<not> truthyv emailOut \<or> \<not> truthyv r then
           (case readJwt P now (storage s1) of
              Inl e \<Rightarrow> Threw e s1
            | Inr payload \<Rightarrow>
                if \<not> truthy payload then Threw (Error ''Invalid token'') s1
                else
                  (let emailOut2 = (if \<not> truthyv emailOut then get_prop payload ''email''
                                    else emailOut);
                       nameOut2 = (if \<not> truthyv nameOut
                                   then nullish (get_prop payload ''name'') (Some (JStr []))
                                   else nameOut);
                       r2 = (if \<not> truthyv r then get_prop payload ''role'' else r);
                       uid2 = (if \<not> truthyv uid
                               then (if is_number (get_prop payload ''sub'')
                                     then get_prop payload ''sub'' else Some (JNum 0))
                               else uid)
                   in Returned (signIn_finish uid2 emailOut2 nameOut2 r2 s1)))
         else Returned (signIn_finish uid emailOut nameOut r s1))"

definition signIn :: "platform \<Rightarrow> rat \<Rightarrow> fetched \<Rightarrow> AuthState \<Rightarrow> outcome" where
  "signIn P now f s =
     (case f of
        Rejected e \<Rightarrow> Threw e s
      | Resolved res \<Rightarrow>
          if \<not> ok res then
            (let j = (case json_body res of Inl e \<Rightarrow> JObj [] | Inr v \<Rightarrow> v)
             in Threw (Error (to_str P (js_or (opt_prop j ''message'')
                                              (Some (JStr ''Login failed''))))) s)
          else
            (case json_body res of
               Inl e \<Rightarrow> Threw e s
             | Inr data \<Rightarrow>
                 if data = JNull then Threw TypeError s
                 else
                   (let st1 = saveSession P (to_str P (get_prop data ''access_token''))
                                (get_prop data ''user'') (storage s)
                    in signIn_resolve P now (get_prop data ''user'') (s\<lparr>storage := st1\<rparr>))))"

definition signOut :: "AuthState \<Rightarrow> AuthState" where
  "signOut s = s\<lparr> storage := clearSession (storage s), user := None, location := ''/login'' \<rparr>"

section \<open>PrivateRoute\<close>

datatype Role = STUDENT | INSTRUCTOR | ADMIN

fun role_value :: "Role \<Rightarrow> jsval" where
  "role_value STUDENT = Some (JStr ''STUDENT'')"
| "role_value INSTRUCTOR = Some (JStr ''INSTRUCTOR'')"
| "role_value ADMIN = Some (JStr ''ADMIN'')"

text \<open>\<^verbatim>\<open>roles.includes(v)\<close> on a \<^verbatim>\<open>Role[]\<close>.\<close>

definition roles_include :: "Role list \<Rightarrow> jsval \<Rightarrow> bool" where
  "roles_include rs v = (v \<in> set (map role_value rs))"

text \<open>
  What the guard returns: \<^verbatim>\<open>null\<close>, a \<^verbatim>\<open>Navigate\<close> element (the redirect), or its children
  in a fragment.
\<close>

datatype 'c element = Null | Navigate string | Fragment 'c

definition PrivateRoute :: "'c \<Rightarrow> Role list option \<Rightarrow> AuthState \<Rightarrow> 'c element" where
  "PrivateRoute children roles s =
     (let token = getItem (storage s) ''token'' in
      if hydrating s then Null
      else (case user s of
              None \<Rightarrow> Navigate ''/login''
            | Some u \<Rightarrow>
                if \<not> truthy_item token then Navigate ''/login''
                else (case roles of
                        None \<Rightarrow> Fragment children
                      | Some rs \<Rightarrow>
                          if \<not> roles_include rs (role u) then Navigate ''/dashboard''
                          else Fragment children)))"

section \<open>Stored tokens that decode\<close>

text \<open>
  The stored token decodes to \<open>payload\<close>: the token slot holds a string with at least two
  dot-separated segments, and the second one passes \<^verbatim>\<open>decodeBase64UrlJSON\<close> with that
  result.
\<close>

definition token_decodes_to :: "platform \<Rightarrow> localStorage \<Rightarrow> json \<Rightarrow> bool" where
  "token_decodes_to P st payload =
     (case getItem st ''token'' of
        None \<Rightarrow> False
      | Some raw \<Rightarrow>
          2 \<le> length (split_on (CHR ''.'') raw) \<and>
          decodeBase64UrlJSON P (split_on (CHR ''.'') raw ! 1) = Inr payload)"

section \<open>A sample platform and sample data\<close>

text \<open>
  Concrete runs need a concrete engine. The sample one knows a few base64 strings and a few
  JSON texts, and throws on every other input, as \<^verbatim>\<open>atob\<close> and \<^verbatim>\<open>JSON.parse\<close> do on
  input they reject. Its \<^verbatim>\<open>JSON.stringify\<close> is right on the one record the runs save, and
  its string conversion on \<^verbatim>\<open>undefined\<close> and on objects; the runs give them nothing else.
  The first three claims objects differ in their expiry only: far in the future, one second
  after the epoch, and the epoch itself. The fourth has no expiry, a role, and the empty
  string for its email.
\<close>

definition claims_future :: json where
  "claims_future =
     JObj [(''email'', JStr ''a@b.com''), (''role'', JStr ''STUDENT''), (''exp'', JNum 9999999999)]"

definition claims_expired :: json where
  "claims_expired =
     JObj [(''email'', JStr ''a@b.com''), (''role'', JStr ''STUDENT''), (''exp'', JNum 1)]"

definition claims_epoch :: json where
  "claims_epoch =
     JObj [(''email'', JStr ''a@b.com''), (''role'', JStr ''STUDENT''), (''exp'', JNum 0)]"

definition claims_empty_email :: json where
  "claims_empty_email = JObj [(''email'', JStr []), (''role'', JStr ''STUDENT'')]"

definition admin_record :: json where
  "admin_record =
     JObj [(''id'', JNum 5), (''email'', JStr ''x@y.com''), (''name'', JStr ''X''),
           (''role'', JStr ''ADMIN'')]"

definition token_future :: string where
  "token_future = ''h.eyJlbWFpbCI6ImFAYi5jb20iLCJyb2xlIjoiU1RVREVOVCIsImV4cCI6OTk5OTk5OTk5OX0.s''"

definition token_expired :: string where
  "token_expired = ''h.eyJlbWFpbCI6ImFAYi5jb20iLCJyb2xlIjoiU1RVREVOVCIsImV4cCI6MX0.s''"

definition token_epoch :: string where
  "token_epoch = ''h.eyJlbWFpbCI6ImFAYi5jb20iLCJyb2xlIjoiU1RVREVOVCIsImV4cCI6MH0.s''"

definition token_empty_email :: string where
  "token_empty_email = ''h.eyJlbWFpbCI6IiIsInJvbGUiOiJTVFVERU5UIn0.s''"

text \<open>A middle segment that is base64 of the text \<^verbatim>\<open>hello\<close>, which is not JSON.\<close>

definition token_not_json :: string where
  "token_not_json = ''h.aGVsbG8.s''"

text \<open>A middle segment that is not base64.\<close>

definition token_not_base64 :: string where
  "token_not_base64 = ''h.!!!.s''"

definition sample_atob :: "string \<Rightarrow> exn + string" where
  \<open>sample_atob b64 =
     (case map_of
        [(''eyJlbWFpbCI6ImFAYi5jb20iLCJyb2xlIjoiU1RVREVOVCIsImV4cCI6OTk5OTk5OTk5OX0'',
          ''{"email":"a@b.com","role":"STUDENT","exp":9999999999}''),
         (''eyJlbWFpbCI6ImFAYi5jb20iLCJyb2xlIjoiU1RVREVOVCIsImV4cCI6MX0'',
          ''{"email":"a@b.com","role":"STUDENT","exp":1}''),
         (''eyJlbWFpbCI6ImFAYi5jb20iLCJyb2xlIjoiU1RVREVOVCIsImV4cCI6MH0'',
          ''{"email":"a@b.com","role":"STUDENT","exp":0}''),
         (''eyJlbWFpbCI6IiIsInJvbGUiOiJTVFVERU5UIn0'',
          ''{"email":"","role":"STUDENT"}''),
         (''aGVsbG8'', ''hello'')] b64 of
        None \<Rightarrow> Inl InvalidCharacterError
      | Some text \<Rightarrow> Inr text)\<close>

definition sample_parse :: "string \<Rightarrow> exn + json" where
  \<open>sample_parse text =
     (case map_of
        [(''{"email":"a@b.com","role":"STUDENT","exp":9999999999}'', claims_future),
         (''{"email":"a@b.com","role":"STUDENT","exp":1}'', claims_expired),
         (''{"email":"a@b.com","role":"STUDENT","exp":0}'', claims_epoch),
         (''{"email":"","role":"STUDENT"}'', claims_empty_email),
         (''{"id":5,"email":"x@y.com","name":"X","role":"ADMIN"}'', admin_record)] text of
        None \<Rightarrow> Inl SyntaxError
      | Some v \<Rightarrow> Inr v)\<close>

definition sample_stringify :: "json \<Rightarrow> string" where
  \<open>sample_stringify v =
     (if v = admin_record then ''{"id":5,"email":"x@y.com","name":"X","role":"ADMIN"}''
      else ''{}'')\<close>

definition sample_ToString :: "jsval \<Rightarrow> string" where
  "sample_ToString v = (case v of None \<Rightarrow> ''undefined'' | Some j \<Rightarrow> ''[object Object]'')"

definition sample_platform :: platform where
  "sample_platform =
     \<lparr> atob = sample_atob, JSON_parse = sample_parse, JSON_stringify = sample_stringify,
       ToString = sample_ToString, num_gt = (\<lambda>n v. False) \<rparr>"

definition signed_out :: AuthState where
  "signed_out = \<lparr> user = None, hydrating = False, storage = Map.empty, location = ''/login'' \<rparr>"

text \<open>A hydrated session of a student, and two login responses.\<close>

definition student_session :: AuthState where
  "student_session =
     \<lparr> user = Some \<lparr> userId = Some (JNum 0), email = Some (JStr ''a@b.com''),
                       name = Some (JStr []), role = Some (JStr ''STUDENT'') \<rparr>,
       hydrating = False, storage = [''token'' \<mapsto> token_future], location = ''/student'' \<rparr>"

definition login_body :: json where
  "login_body = JObj [(''access_token'', JStr ''t''), (''user'', admin_record)]"

definition bad_login_body :: json where
  "bad_login_body = JObj [(''access_token'', JStr ''garbage'')]"

section \<open>Facts about the token codec\<close>

lemmas storage_defs = getItem_def setItem_def removeItem_def truthy_item_def

lemmas sample_defs = sample_platform_def sample_atob_def sample_parse_def sample_stringify_def
  sample_ToString_def claims_future_def claims_expired_def claims_epoch_def admin_record_def
  token_future_def token_expired_def token_epoch_def token_not_json_def token_not_base64_def

lemmas jwt_defs = readJwt_def readJwt_try_def decodeBase64UrlJSON_def replace_all_def
  opt_prop_def truthyv_def js_gt_def token_decodes_to_def

lemma split_on_two: "2 \<le> length (split_on sep raw) \<Longrightarrow> raw \<noteq> []"
  by (cases raw) auto

text \<open>On a token that decodes, \<^verbatim>\<open>readJwt\<close> is its expiry test and nothing else.\<close>

lemma readJwt_decoded:
  assumes "token_decodes_to P st payload"
  shows "readJwt P now st =
           (if truthyv (opt_prop payload ''exp'') \<and> js_gt P now (opt_prop payload ''exp'')
            then Inr JNull else Inr payload)"
proof -
  from assms obtain raw where raw: "getItem st ''token'' = Some raw"
    and len: "2 \<le> length (split_on (CHR ''.'') raw)"
    and dec: "decodeBase64UrlJSON P (split_on (CHR ''.'') raw ! 1) = Inr payload"
    by (auto simp: token_decodes_to_def split: option.splits)
  from len have ne: "raw \<noteq> []" by (rule split_on_two)
  from len have nlt: "\<not> length (split_on (CHR ''.'') raw) < 2" by simp
  show ?thesis
    using raw ne nlt dec by (simp add: readJwt_def readJwt_try_def)
qed

lemma exp_truthy:
  "get_prop payload ''exp'' = Some (JNum e) \<Longrightarrow> e \<noteq> 0 \<Longrightarrow> truthyv (opt_prop payload ''exp'')"
  by (cases payload) (auto simp: opt_prop_def truthyv_def)

lemma exp_gt:
  "get_prop payload ''exp'' = Some (JNum e) \<Longrightarrow> js_gt P now (opt_prop payload ''exp'') = (e < now)"
  by (cases payload) (auto simp: opt_prop_def js_gt_def)

lemma readJwt_expired:
  assumes "token_decodes_to P st payload"
    and "get_prop payload ''exp'' = Some (JNum e)"
    and "e \<noteq> 0"
    and "e < now"
  shows "readJwt P now st = Inr JNull"
  using assms by (simp add: readJwt_decoded exp_truthy exp_gt)

lemma sample_decodes_future:
  "token_decodes_to sample_platform [''token'' \<mapsto> token_future] claims_future"
  by (simp add: jwt_defs storage_defs sample_defs)

lemma sample_decodes_expired:
  "token_decodes_to sample_platform [''token'' \<mapsto> token_expired] claims_expired"
  by (simp add: jwt_defs storage_defs sample_defs)

lemma sample_decodes_epoch:
  "token_decodes_to sample_platform [''token'' \<mapsto> token_epoch] claims_epoch"
  by (simp add: jwt_defs storage_defs sample_defs)

lemma sample_decodes_empty_email:
  "token_decodes_to sample_platform [''token'' \<mapsto> token_empty_email] claims_empty_email"
  by (simp add: jwt_defs storage_defs sample_defs token_empty_email_def)

lemma readJwt_returns: "\<exists>v. readJwt P now st = Inr v"
  by (simp add: readJwt_def split: option.split sum.split)

section \<open>Facts about sign-in\<close>

text \<open>After \<^verbatim>\<open>saveSession\<close>, \<^verbatim>\<open>signIn\<close> ends in one of two ways.\<close>

lemma signIn_resolve_cases:
  "signIn_resolve P now du s1 = Threw (Error ''Invalid token'') s1
   \<or> (\<exists>uid em nm r. signIn_resolve P now du s1 = Returned (signIn_finish uid em nm r s1))"
proof -
  obtain v where v: "readJwt P now (storage s1) = Inr v"
    using readJwt_returns by blast
  show ?thesis
    unfolding signIn_resolve_def Let_def v
    by (cases "truthy v") auto
qed

lemma signIn_finish_frame:
  "storage (signIn_finish uid em nm r s1) = storage s1
   \<and> user (signIn_finish uid em nm r s1) \<noteq> None"
  by (simp add: signIn_finish_def)

lemma saveSession_slots:
  "getItem (saveSession P token usr st) ''token'' = Some token
   \<and> (\<forall>u. usr = Some u \<and> truthy u \<longrightarrow>
         getItem (saveSession P token usr st) ''user'' = Some (JSON_stringify P u))"
  by (simp add: saveSession_def storage_defs Let_def split: option.splits)

section \<open>The claims\<close>

text \<open>
  C1, on the code. With no cached user record and a stored token whose claims expired before
  \<^verbatim>\<open>readJwt\<close> looked at the clock, the hydration effect changes nothing but the hydration
  flag: \<^verbatim>\<open>readJwt\<close> has already answered \<^verbatim>\<open>null\<close>, so the effect's own expiry branch,
  the one that calls \<^verbatim>\<open>clearSession\<close>, is not taken. Current User stays as it was
  (\<^verbatim>\<open>null\<close> at mount), and the token stays in storage.
\<close>

theorem hydrate_expired_keeps_storage:
  assumes "\<not> truthy_item (getItem (storage s) ''user'')"
    and "token_decodes_to P (storage s) payload"
    and "get_prop payload ''exp'' = Some (JNum e)"
    and "e \<noteq> 0"
    and "e < now1"
  shows "hydrate P now1 now2 s = s\<lparr>hydrating := False\<rparr>"
proof -
  have "readJwt P now1 (storage s) = Inr JNull"
    using assms(2-5) by (rule readJwt_expired)
  then show ?thesis
    using assms(1) by (simp add: hydrate_def hydrate_try_def opt_prop_def truthyv_def)
qed

theorem hydrate_expired_keeps_storage_witness:
  "user (hydrate sample_platform 5 5 (mounted [''token'' \<mapsto> token_expired] ''/'')) = None
   \<and> getItem (storage (hydrate sample_platform 5 5 (mounted [''token'' \<mapsto> token_expired] ''/'')))
        ''token'' = Some token_expired"
proof -
  let ?s = "mounted [''token'' \<mapsto> token_expired] ''/''"
  have u: "\<not> truthy_item (getItem (storage ?s) ''user'')"
    by (simp add: mounted_def storage_defs)
  have d: "token_decodes_to sample_platform (storage ?s) claims_expired"
    using sample_decodes_expired by (simp add: mounted_def)
  have e: "get_prop claims_expired ''exp'' = Some (JNum 1)"
    by (simp add: claims_expired_def)
  have "hydrate sample_platform 5 5 ?s = ?s\<lparr>hydrating := False\<rparr>"
    using hydrate_expired_keeps_storage [OF u d e] by simp
  then show ?thesis
    by (simp add: mounted_def storage_defs)
qed

text \<open>
  C2, as amended. \<^verbatim>\<open>signIn\<close> either returns, and then the response was an OK one with a
  body, the token slot holds the body's token, the user slot holds the body's user record
  when that is truthy, and Current User is set; or it throws one error, and then nothing
  at all has changed, unless the error is \<^verbatim>\<open>Invalid token\<close>, where Current User, the
  hydration flag and the route are unchanged and nothing is said of storage.
\<close>

theorem signIn_outcomes:
  "(case signIn P now f s of
      Returned s' \<Rightarrow>
        (\<exists>data. f = Resolved \<lparr>ok = True, json_body = Inr data\<rparr>
           \<and> getItem (storage s') ''token'' = Some (to_str P (get_prop data ''access_token''))
           \<and> (\<forall>u. get_prop data ''user'' = Some u \<and> truthy u \<longrightarrow>
                 getItem (storage s') ''user'' = Some (JSON_stringify P u))
           \<and> user s' \<noteq> None)
    | Threw e s' \<Rightarrow>
        s' = s
        \<or> (e = Error ''Invalid token'' \<and> user s' = user s \<and> hydrating s' = hydrating s
             \<and> location s' = location s))"
proof (cases f)
  case (Rejected e)
  then show ?thesis by (simp add: signIn_def)
next
  case (Resolved res)
  show ?thesis
  proof (cases "ok res")
    case False
    with Resolved show ?thesis by (simp add: signIn_def Let_def)
  next
    case True
    show ?thesis
    proof (cases "json_body res")
      case (Inl e)
      with Resolved True show ?thesis by (simp add: signIn_def)
    next
      case (Inr data)
      show ?thesis
      proof (cases "data = JNull")
        case True
        with Resolved \<open>ok res\<close> Inr show ?thesis by (simp add: signIn_def)
      next
        case False
        let ?st1 = "saveSession P (to_str P (get_prop data ''access_token''))
                      (get_prop data ''user'') (storage s)"
        let ?s1 = "s\<lparr>storage := ?st1\<rparr>"
        have run: "signIn P now f s = signIn_resolve P now (get_prop data ''user'') ?s1"
          using Resolved \<open>ok res\<close> Inr False by (simp add: signIn_def Let_def)
        have f: "f = Resolved \<lparr>ok = True, json_body = Inr data\<rparr>"
          using Resolved \<open>ok res\<close> Inr by simp
        from signIn_resolve_cases [of P now "get_prop data ''user''" ?s1]
        show ?thesis
        proof
          assume "signIn_resolve P now (get_prop data ''user'') ?s1
                  = Threw (Error ''Invalid token'') ?s1"
          then have thrown: "signIn P now f s = Threw (Error ''Invalid token'') ?s1"
            by (simp add: run)
          show ?thesis
            unfolding thrown by simp
        next
          assume "\<exists>uid em nm r. signIn_resolve P now (get_prop data ''user'') ?s1
                    = Returned (signIn_finish uid em nm r ?s1)"
          then obtain uid em nm r where
            "signIn_resolve P now (get_prop data ''user'') ?s1
               = Returned (signIn_finish uid em nm r ?s1)"
            by blast
          then have returned: "signIn P now f s = Returned (signIn_finish uid em nm r ?s1)"
            by (simp add: run)
          show ?thesis
            unfolding returned
            using f saveSession_slots [of P "to_str P (get_prop data ''access_token'')"
                "get_prop data ''user''" "storage s"]
            by (simp add: signIn_finish_frame)
        qed
      qed
    qed
  qed
qed

text \<open>
  The scenario of the specification: the response carries the token \<^verbatim>\<open>t\<close> and the record
  of an administrator with identifier 5; and a response that is not OK.
\<close>

theorem signIn_outcomes_witness:
  "signIn sample_platform 5 (Resolved \<lparr>ok = True, json_body = Inr login_body\<rparr>) signed_out =
     Returned \<lparr> user = Some \<lparr> userId = Some (JNum 5), email = Some (JStr ''x@y.com''),
                              name = Some (JStr ''X''), role = Some (JStr ''ADMIN'') \<rparr>,
                hydrating = False,
                storage = [''token'' \<mapsto> ''t'', ''user'' \<mapsto> sample_stringify admin_record],
                location = ''/admin'' \<rparr>
   \<and> signIn sample_platform 5 (Resolved \<lparr>ok = False, json_body = Inl SyntaxError\<rparr>) signed_out =
     Threw (Error ''Login failed'') signed_out"
  using signIn_outcomes [where P = sample_platform and now = 5 and s = signed_out
      and f = "Resolved \<lparr>ok = True, json_body = Inr login_body\<rparr>"]
    signIn_outcomes [where P = sample_platform and now = 5 and s = signed_out
      and f = "Resolved \<lparr>ok = False, json_body = Inl SyntaxError\<rparr>"]
  by (simp add: signIn_def signIn_resolve_def signIn_finish_def saveSession_def route_of_role_def
      login_body_def admin_record_def signed_out_def sample_platform_def sample_stringify_def
      to_str_def truthyv_def nullish_def js_or_def opt_prop_def storage_defs Let_def)

text \<open>
  C2 as stated fails: the response is OK, its body has the token \<^verbatim>\<open>garbage\<close> and no user.
  \<^verbatim>\<open>signIn\<close> throws \<^verbatim>\<open>Invalid token\<close>, and the token slot, empty before the call, holds
  \<^verbatim>\<open>garbage\<close>.
\<close>

theorem signIn_invalid_token_counterexample:
  "(case signIn sample_platform 5 (Resolved \<lparr>ok = True, json_body = Inr bad_login_body\<rparr>)
          signed_out of
      Returned s' \<Rightarrow> False
    | Threw e s' \<Rightarrow> e = Error ''Invalid token''
                     \<and> getItem (storage s') ''token'' = Some ''garbage'')
   \<and> getItem (storage signed_out) ''token'' = None"
  by (simp add: signIn_def signIn_resolve_def saveSession_def readJwt_def readJwt_try_def
      bad_login_body_def signed_out_def sample_platform_def
      to_str_def truthyv_def nullish_def storage_defs Let_def)

text \<open>
  C3. Round trip: save a session whose user record is an object carrying an email (not
  \<^verbatim>\<open>null\<close>) and a role, then run the hydration effect on the resulting storage. Current User
  exists and has that email and that role. The engine is asked for what JSON gives: the
  record's text is not empty and parses back to the record.
\<close>

theorem save_then_hydrate_roundtrip:
  assumes "get_prop u ''email'' = Some e"
    and "e \<noteq> JNull"
    and "get_prop u ''role'' = Some r"
    and "JSON_stringify P u \<noteq> []"
    and "JSON_parse P (JSON_stringify P u) = Inr u"
  shows "\<exists>cu. user (hydrate P now1 now2 (s\<lparr>storage := saveSession P token (Some u) (storage s)\<rparr>))
                = Some cu
              \<and> email cu = Some e \<and> role cu = Some r"
proof -
  from assms(1) obtain kvs where u: "u = JObj kvs"
    by (cases u) auto
  have slot: "getItem (saveSession P token (Some u) (storage s)) ''user''
                = Some (JSON_stringify P u)"
    by (simp add: saveSession_def u storage_defs)
  have en: "nullish (Some e) (Some (JStr [])) = Some e"
    using assms(2) by (cases e) (simp_all add: nullish_def)
  show ?thesis
    using slot assms(1,3,4,5) en
    by (simp add: hydrate_def hydrate_try_def truthy_item_def user_of_parsed_def u)
qed

theorem save_then_hydrate_roundtrip_witness:
  "user (hydrate sample_platform 5 5
          ((mounted Map.empty ''/'')
             \<lparr>storage := saveSession sample_platform ''t'' (Some admin_record)
                           (storage (mounted Map.empty ''/''))\<rparr>))
     = Some \<lparr> userId = Some (JNum 5), email = Some (JStr ''x@y.com''),
              name = Some (JStr ''X''), role = Some (JStr ''ADMIN'') \<rparr>"
proof -
  have em: "get_prop admin_record ''email'' = Some (JStr ''x@y.com'')"
    and ro: "get_prop admin_record ''role'' = Some (JStr ''ADMIN'')"
    by (simp_all add: admin_record_def)
  have ne: "JSON_stringify sample_platform admin_record \<noteq> []"
    by (simp add: sample_platform_def sample_stringify_def)
  have rt: "JSON_parse sample_platform (JSON_stringify sample_platform admin_record)
              = Inr admin_record"
    by (simp add: sample_platform_def sample_stringify_def sample_parse_def)
  from save_then_hydrate_roundtrip [OF em _ ro ne rt, where ?now1.0 = 5 and ?now2.0 = 5
      and s = "mounted Map.empty ''/''" and token = "''t''"]
  obtain cu where
    "user (hydrate sample_platform 5 5
            ((mounted Map.empty ''/'')
               \<lparr>storage := saveSession sample_platform ''t'' (Some admin_record)
                             (storage (mounted Map.empty ''/''))\<rparr>)) = Some cu"
    by auto
  then show ?thesis
    using rt ne
    by (simp add: hydrate_def hydrate_try_def saveSession_def mounted_def storage_defs
        user_of_parsed_def nullish_def admin_record_def)
qed

text \<open>
  C4, as amended. With no cached user record and a stored token that decodes to claims whose
  expiry is absent or strictly after both clock readings, and whose email and role are both
  truthy (for strings: not empty), the hydration effect sets Current User to the claims:
  the email and role as they are, the identifier from \<^verbatim>\<open>sub\<close> or 0, the name from
  \<^verbatim>\<open>name\<close> or the empty string. Hydration is finished, and nothing else changes.
\<close>

theorem hydrate_adopts_claims:
  assumes "\<not> truthy_item (getItem (storage s) ''user'')"
    and "token_decodes_to P (storage s) payload"
    and "get_prop payload ''exp'' = None
         \<or> (\<exists>e. get_prop payload ''exp'' = Some (JNum e) \<and> now1 < e \<and> now2 < e)"
    and "truthyv (get_prop payload ''email'')"
    and "truthyv (get_prop payload ''role'')"
  shows "hydrate P now1 now2 s =
           s\<lparr> user := Some \<lparr> userId = nullish (get_prop payload ''sub'') (Some (JNum 0)),
                              email = get_prop payload ''email'',
                              name = nullish (get_prop payload ''name'') (Some (JStr [])),
                              role = get_prop payload ''role'' \<rparr>,
              hydrating := False \<rparr>"
proof -
  from assms(4) have nn: "payload \<noteq> JNull"
    by (auto simp: truthyv_def)
  have fresh1: "\<not> (truthyv (opt_prop payload ''exp'') \<and> js_gt P now1 (opt_prop payload ''exp''))"
    using assms(3) nn by (auto simp: opt_prop_def truthyv_def js_gt_def)
  have fresh2: "\<not> (truthyv (opt_prop payload ''exp'') \<and> js_gt P now2 (opt_prop payload ''exp''))"
    using assms(3) nn by (auto simp: opt_prop_def truthyv_def js_gt_def)
  have r: "readJwt P now1 (storage s) = Inr payload"
    using readJwt_decoded [OF assms(2), of now1] fresh1 by simp
  have er: "truthyv (opt_prop payload ''email'') \<and> truthyv (opt_prop payload ''role'')"
    using assms(4,5) nn by (simp add: opt_prop_def)
  show ?thesis
    using assms(1) r fresh2 er
    by (auto simp: hydrate_def hydrate_try_def user_of_payload_def)
qed

text \<open>The scenario of the specification: the token with expiry 9999999999.\<close>

theorem hydrate_adopts_claims_witness:
  "hydrate sample_platform 5 5 (mounted [''token'' \<mapsto> token_future] ''/'') =
     \<lparr> user = Some \<lparr> userId = Some (JNum 0), email = Some (JStr ''a@b.com''),
                      name = Some (JStr []), role = Some (JStr ''STUDENT'') \<rparr>,
       hydrating = False, storage = [''token'' \<mapsto> token_future], location = ''/'' \<rparr>"
proof -
  let ?s = "mounted [''token'' \<mapsto> token_future] ''/''"
  have u: "\<not> truthy_item (getItem (storage ?s) ''user'')"
    by (simp add: mounted_def storage_defs)
  have d: "token_decodes_to sample_platform (storage ?s) claims_future"
    using sample_decodes_future by (simp add: mounted_def)
  have x: "get_prop claims_future ''exp'' = None
           \<or> (\<exists>e. get_prop claims_future ''exp'' = Some (JNum e) \<and> 5 < e \<and> 5 < e)"
    by (simp add: claims_future_def)
  have em: "truthyv (get_prop claims_future ''email'')"
    and ro: "truthyv (get_prop claims_future ''role'')"
    by (simp_all add: claims_future_def truthyv_def)
  show ?thesis
    using hydrate_adopts_claims [OF u d x em ro]
    by (simp add: mounted_def claims_future_def nullish_def)
qed

text \<open>
  C4 as stated fails at an email that is present and empty: there is no cached user record,
  the stored token decodes to claims with no expiry, the email \<^verbatim>\<open>""\<close> and the role
  \<^verbatim>\<open>STUDENT\<close>, and the hydration effect finishes with Current User still \<^verbatim>\<open>null\<close>,
  since \<^verbatim>\<open>payload?.email && payload?.role\<close> stops at the empty string.
\<close>

theorem hydrate_empty_email_counterexample:
  "\<not> truthy_item
       (getItem (storage (mounted [''token'' \<mapsto> token_empty_email] ''/'')) ''user'')
   \<and> token_decodes_to sample_platform
         (storage (mounted [''token'' \<mapsto> token_empty_email] ''/'')) claims_empty_email
   \<and> get_prop claims_empty_email ''exp'' = None
   \<and> get_prop claims_empty_email ''email'' = Some (JStr [])
   \<and> get_prop claims_empty_email ''role'' = Some (JStr ''STUDENT'')
   \<and> user (hydrate sample_platform 5 5 (mounted [''token'' \<mapsto> token_empty_email] ''/''))
         = None
   \<and> hydrating (hydrate sample_platform 5 5 (mounted [''token'' \<mapsto> token_empty_email] ''/''))
         = False"
proof -
  let ?s = "mounted [''token'' \<mapsto> token_empty_email] ''/''"
  have u: "\<not> truthy_item (getItem (storage ?s) ''user'')"
    by (simp add: mounted_def storage_defs)
  have d: "token_decodes_to sample_platform (storage ?s) claims_empty_email"
    using sample_decodes_empty_email by (simp add: mounted_def)
  have x: "get_prop claims_empty_email ''exp'' = None"
    and em: "get_prop claims_empty_email ''email'' = Some (JStr [])"
    and ro: "get_prop claims_empty_email ''role'' = Some (JStr ''STUDENT'')"
    by (simp_all add: claims_empty_email_def)
  have r: "readJwt sample_platform 5 (storage ?s) = Inr claims_empty_email"
    using x by (simp add: readJwt_decoded [OF d] opt_prop_def truthyv_def claims_empty_email_def)
  have h: "hydrate sample_platform 5 5 ?s = ?s\<lparr>hydrating := False\<rparr>"
    using u r by (simp add: hydrate_def hydrate_try_def opt_prop_def truthyv_def
        claims_empty_email_def)
  have "user (hydrate sample_platform 5 5 ?s) = None"
    and "hydrating (hydrate sample_platform 5 5 ?s) = False"
    unfolding h by (simp_all add: mounted_def)
  with u d x em ro show ?thesis by simp
qed



text \<open>
  C6. \<^verbatim>\<open>signOut\<close> is idempotent: a second call changes nothing. After it Current User
  is \<^verbatim>\<open>null\<close> and both slots are empty. It has no way to fail: it is a function of the
  state alone, with no error result.
\<close>

theorem signOut_idempotent:
  "signOut (signOut s) = signOut s
   \<and> user (signOut s) = None
   \<and> getItem (storage (signOut s)) ''token'' = None
   \<and> getItem (storage (signOut s)) ''user'' = None"
  by (simp add: signOut_def clearSession_def storage_defs)

text \<open>
  C7. While hydration is pending the guard returns \<^verbatim>\<open>null\<close>, whatever the user, the token
  and the allow-list: neither its children nor a \<^verbatim>\<open>Navigate\<close> element.
\<close>

theorem PrivateRoute_hydrating:
  "hydrating s \<Longrightarrow> PrivateRoute children roles s = Null"
  by (simp add: PrivateRoute_def)

theorem PrivateRoute_hydrating_witness:
  "PrivateRoute ''page'' (Some [ADMIN]) (student_session\<lparr>hydrating := True\<rparr>) = Null
   \<and> PrivateRoute ''page'' None (mounted Map.empty ''/'') = Null"
  using PrivateRoute_hydrating [of "student_session\<lparr>hydrating := True\<rparr>" "''page''" "Some [ADMIN]"]
    PrivateRoute_hydrating [of "mounted Map.empty ''/''" "''page''" None]
  by (simp add: mounted_def)

text \<open>
  C8. Hydration is finished, the user exists and the token slot holds a non-empty string.
  With a non-empty allow-list that lacks the user's role the guard returns the redirect to
  \<^verbatim>\<open>/dashboard\<close>, not its children; with an allow-list that has the role, and with no
  allow-list, it returns its children unchanged.
\<close>

theorem PrivateRoute_roles:
  assumes "\<not> hydrating s"
    and "user s = Some u"
    and "getItem (storage s) ''token'' = Some tok"
    and "tok \<noteq> []"
  shows "(rs \<noteq> [] \<and> role u \<notin> set (map role_value rs)
            \<longrightarrow> PrivateRoute children (Some rs) s = Navigate ''/dashboard'')
         \<and> (role u \<in> set (map role_value rs)
            \<longrightarrow> PrivateRoute children (Some rs) s = Fragment children)
         \<and> PrivateRoute children None s = Fragment children"
  using assms by (simp add: PrivateRoute_def roles_include_def truthy_item_def)

text \<open>The scenario of the specification: a student at a route for instructors.\<close>

theorem PrivateRoute_roles_witness:
  "PrivateRoute ''page'' (Some [INSTRUCTOR]) student_session = Navigate ''/dashboard''
   \<and> PrivateRoute ''page'' (Some [INSTRUCTOR, STUDENT]) student_session = Fragment ''page''
   \<and> PrivateRoute ''page'' None student_session = Fragment ''page''"
proof -
  have h: "\<not> hydrating student_session"
    and u: "user student_session =
              Some \<lparr> userId = Some (JNum 0), email = Some (JStr ''a@b.com''),
                     name = Some (JStr []), role = Some (JStr ''STUDENT'') \<rparr>"
    and t: "getItem (storage student_session) ''token'' = Some token_future"
    and n: "token_future \<noteq> []"
    by (simp_all add: student_session_def storage_defs token_future_def)
  show ?thesis
    using PrivateRoute_roles [OF h u t n, of "[INSTRUCTOR]" "''page''"]
      PrivateRoute_roles [OF h u t n, of "[INSTRUCTOR, STUDENT]" "''page''"]
    by simp
qed

text \<open>
  C9, as amended. When the stored token decodes to a payload whose \<^verbatim>\<open>exp\<close> is a number
  other than zero and strictly less than the current time, \<^verbatim>\<open>readJwt\<close> returns
  \<^verbatim>\<open>null\<close>, not the claims: the codec itself enforces expiry, for every caller.
\<close>

theorem readJwt_expired_null:
  assumes "token_decodes_to P st payload"
    and "get_prop payload ''exp'' = Some (JNum e)"
    and "e \<noteq> 0"
    and "e < now"
  shows "readJwt P now st = Inr JNull"
  using assms by (rule readJwt_expired)

theorem readJwt_expired_null_witness:
  "readJwt sample_platform 5 [''token'' \<mapsto> token_expired] = Inr JNull"
proof -
  have "get_prop claims_expired ''exp'' = Some (JNum 1)"
    by (simp add: claims_expired_def)
  then show ?thesis
    using readJwt_expired_null [OF sample_decodes_expired, of 1 5] by simp
qed

text \<open>
  C9 as stated fails at the expiry zero: the payload carries \<^verbatim>\<open>exp: 0\<close>, the current time
  is 5 seconds after the epoch, and \<^verbatim>\<open>readJwt\<close> returns the claims object, since
  \<^verbatim>\<open>payload?.exp && ...\<close> stops at a zero.
\<close>

theorem readJwt_epoch_counterexample:
  "token_decodes_to sample_platform [''token'' \<mapsto> token_epoch] claims_epoch
   \<and> get_prop claims_epoch ''exp'' = Some (JNum 0)
   \<and> (0::rat) < 5
   \<and> readJwt sample_platform 5 [''token'' \<mapsto> token_epoch] = Inr claims_epoch
   \<and> readJwt sample_platform 5 [''token'' \<mapsto> token_epoch] \<noteq> Inr JNull"
proof -
  have e: "get_prop claims_epoch ''exp'' = Some (JNum 0)"
    by (simp add: claims_epoch_def)
  have r: "readJwt sample_platform 5 [''token'' \<mapsto> token_epoch] = Inr claims_epoch"
    using e by (simp add: readJwt_decoded [OF sample_decodes_epoch] opt_prop_def truthyv_def
        claims_epoch_def)
  have "claims_epoch \<noteq> JNull"
    by (simp add: claims_epoch_def)
  with e r sample_decodes_epoch show ?thesis by simp
qed

text \<open>
  C10. \<^verbatim>\<open>saveSession\<close> with a token and no user record (or one that is not truthy) writes the
  token slot and no other: the user slot keeps the value it had, so a record cached by an
  earlier session survives the save.
\<close>

theorem saveSession_without_user:
  assumes "\<not> truthyv usr"
  shows "getItem (saveSession P token usr st) ''token'' = Some token
         \<and> getItem (saveSession P token usr st) ''user'' = getItem st ''user''
         \<and> (\<forall>k. k \<noteq> ''token'' \<longrightarrow> getItem (saveSession P token usr st) k = getItem st k)"
  using assms by (simp add: saveSession_def storage_defs truthyv_def Let_def split: option.splits)

theorem saveSession_without_user_witness:
  "getItem (saveSession sample_platform ''new'' None [''token'' \<mapsto> ''old'', ''user'' \<mapsto> ''cached''])
     ''token'' = Some ''new''
   \<and> getItem (saveSession sample_platform ''new'' None [''token'' \<mapsto> ''old'', ''user'' \<mapsto> ''cached''])
       ''user'' = Some ''cached''"
proof -
  have "\<not> truthyv None"
    by (simp add: truthyv_def)
  from saveSession_without_user [OF this, of sample_platform "''new''"
      "[''token'' \<mapsto> ''old'', ''user'' \<mapsto> ''cached'']"]
  show ?thesis
    by (simp add: storage_defs)
qed

end
